theory Spec2Isabelle
  imports Complex_Main "HOL-Library.Multiset"
begin

section \<open>Data model of the rod system\<close>

text \<open>
  The simulator stores every floating-point quantity as a C++ \<^verbatim>\<open>double\<close>. The embedding
  reads them as exact reals, so every statement below is about the arithmetic the code
  writes down, not about rounding. Body identifiers (\<^verbatim>\<open>int\<close>) are read as unbounded
  integers; the statements that add one to an identifier are meant below the largest
  machine integer.
\<close>

subsection \<open>Three-vectors and quaternions (Eigen)\<close>

type_synonym Evec3 = "real \<times> real \<times> real"

definition vadd :: "Evec3 \<Rightarrow> Evec3 \<Rightarrow> Evec3" where
  "vadd a b = (case a of (a0, a1, a2) \<Rightarrow> case b of (b0, b1, b2) \<Rightarrow> (a0 + b0, a1 + b1, a2 + b2))"

definition vsub :: "Evec3 \<Rightarrow> Evec3 \<Rightarrow> Evec3" where
  "vsub a b = (case a of (a0, a1, a2) \<Rightarrow> case b of (b0, b1, b2) \<Rightarrow> (a0 - b0, a1 - b1, a2 - b2))"

definition vscale :: "Evec3 \<Rightarrow> real \<Rightarrow> Evec3" where
  "vscale a s = (case a of (a0, a1, a2) \<Rightarrow> (a0 * s, a1 * s, a2 * s))"

definition vdiv :: "Evec3 \<Rightarrow> real \<Rightarrow> Evec3" where
  "vdiv a s = (case a of (a0, a1, a2) \<Rightarrow> (a0 / s, a1 / s, a2 / s))"

definition vneg :: "Evec3 \<Rightarrow> Evec3" where
  "vneg a = (case a of (a0, a1, a2) \<Rightarrow> (- a0, - a1, - a2))"

definition vcross :: "Evec3 \<Rightarrow> Evec3 \<Rightarrow> Evec3" where
  "vcross a b = (case a of (a0, a1, a2) \<Rightarrow> case b of (b0, b1, b2) \<Rightarrow>
     (a1 * b2 - a2 * b1, a2 * b0 - a0 * b2, a0 * b1 - a1 * b0))"

definition vnorm :: "Evec3 \<Rightarrow> real" where
  "vnorm a = (case a of (a0, a1, a2) \<Rightarrow> sqrt (a0 * a0 + a1 * a1 + a2 * a2))"

definition vz :: "Evec3 \<Rightarrow> real" where
  "vz a = (case a of (a0, a1, a2) \<Rightarrow> a2)"

text \<open>Quaternion coefficients in Eigen's storage order x, y, z, w.\<close>

record Equatn =
  qx :: real
  qy :: real
  qz :: real
  qw :: real

text \<open>
  \<^verbatim>\<open>ECmapq(q) * v\<close>: Eigen rotates a vector by \<^verbatim>\<open>uv = 2 (vec \<times> v)\<close> and
  \<^verbatim>\<open>v + w uv + vec \<times> uv\<close>.
\<close>

definition quatRotate :: "Equatn \<Rightarrow> Evec3 \<Rightarrow> Evec3" where
  "quatRotate q v =
     (let u = (qx q, qy q, qz q);
          uv0 = vcross u v;
          uv = vadd uv0 uv0
      in vadd (vadd v (vscale uv (qw q))) (vcross u uv))"

subsection \<open>Bodies\<close>

record Link =
  link_group :: int
  link_prev :: int
  link_next :: int

record Sylinder =
  gid :: int
  globalIndex :: int
  pos :: Evec3
  orientation :: Equatn
  length_s :: real
  radius :: real
  lengthCollision :: real
  link :: Link

text \<open>The rod axis: the body frame's z axis in the lab frame.\<close>

definition direction :: "Sylinder \<Rightarrow> Evec3" where
  "direction sy = quatRotate (orientation sy) (0, 0, 1)"

section \<open>Slender-body drag coefficients of \<^verbatim>\<open>calcMobMatrix\<close>\<close>

definition Pi :: real where
  "Pi = 3.14159265358979323846"

definition drag_b :: "Sylinder \<Rightarrow> real" where
  "drag_b sy = (let diameter = radius sy * 2 in - (1 + 2 * ln (diameter * 0.5 / length_s sy)))"

definition dragPara :: "real \<Rightarrow> Sylinder \<Rightarrow> real" where
  "dragPara mu sy = 8 * Pi * length_s sy * mu / (2 * drag_b sy)"

definition dragPerp :: "real \<Rightarrow> Sylinder \<Rightarrow> real" where
  "dragPerp mu sy = 8 * Pi * length_s sy * mu / (drag_b sy + 2)"

definition dragRot :: "real \<Rightarrow> Sylinder \<Rightarrow> real" where
  "dragRot mu sy = 2 * Pi * mu * length_s sy * length_s sy * length_s sy / (3 * (drag_b sy + 2))"

text \<open>A rod at the origin, axis along z, with the given length and radius.\<close>

definition rodAt :: "int \<Rightarrow> int \<Rightarrow> Evec3 \<Rightarrow> real \<Rightarrow> real \<Rightarrow> Sylinder" where
  "rodAt g gi p len r =
     \<lparr>gid = g, globalIndex = gi, pos = p,
      orientation = \<lparr>qx = 0, qy = 0, qz = 0, qw = 1\<rparr>,
      length_s = len, radius = r, lengthCollision = len,
      link = \<lparr>link_group = - 1, link_prev = - 1, link_next = - 1\<rparr>\<rparr>"

section \<open>Constraint blocks and the thread pools of a collector\<close>

text \<open>
  One scalar constraint. The fields are those the code passes to the block's constructor,
  in its order: gap, initial multiplier, the two gids, the two global indices, the force
  directions, the contact points relative to the centres, the contact points in the lab
  frame, the one-sided flag and the spring constant.
  The constructor's declaration is not among the sources: where a call leaves the
  trailing spring constant out, the functions below take the value stored for it as
  their parameter \<open>kNone\<close>.
\<close>

record ConstraintBlock =
  delta0 :: real
  gamma :: real
  gidI :: int
  gidJ :: int
  globalIndexI :: int
  globalIndexJ :: int
  normI :: Evec3
  normJ :: Evec3
  posI :: Evec3
  posJ :: Evec3
  labI :: Evec3
  labJ :: Evec3
  oneSide :: bool
  kappa :: real

text \<open>A collector's pool: one growable queue of blocks for each worker thread.\<close>

type_synonym ConstraintPool = "ConstraintBlock list list"

text \<open>\<^verbatim>\<open>pool[threadId].emplace_back(block)\<close>\<close>

definition emplace_back :: "nat \<Rightarrow> ConstraintBlock \<Rightarrow> ConstraintPool \<Rightarrow> ConstraintPool" where
  "emplace_back t b pool = pool[t := pool ! t @ [b]]"

text \<open>
  A worksharing loop \<^verbatim>\<open>for (i = 0; i < nLocal; i++)\<close> whose body either skips or appends
  one block to the queue of the thread that runs iteration \<open>i\<close>. The assignment of
  iterations to threads is the parameter \<open>sched\<close>; a thread runs its iterations in
  increasing order and touches its own queue only, so the queues after the loop are
  those of the sequential loop.
\<close>

definition poolLoop ::
  "(Sylinder \<Rightarrow> ConstraintBlock option) \<Rightarrow> (nat \<Rightarrow> nat) \<Rightarrow> Sylinder list \<Rightarrow> nat list
    \<Rightarrow> ConstraintPool \<Rightarrow> ConstraintPool" where
  "poolLoop f sched bodies idx pool =
     fold (\<lambda>i p. case f (bodies ! i) of None \<Rightarrow> p | Some b \<Rightarrow> emplace_back (sched i) b p) idx pool"

section \<open>Run configuration\<close>

record SylinderConfig =
  wallLowZ :: bool
  wallHighZ :: bool
  simBoxLow :: Evec3
  simBoxHigh :: Evec3
  linkKappa :: real
  viscosity :: real
  dt :: real
  conResTol :: real
  conMaxIte :: int

section \<open>\<^verbatim>\<open>collectWallCollision\<close>\<close>

text \<open>The two ends of the collision segment of a rod.\<close>

definition endPm :: "Sylinder \<Rightarrow> Evec3" where
  "endPm sy = vsub (pos sy) (vscale (direction sy) (lengthCollision sy * 0.5))"

definition endPp :: "Sylinder \<Rightarrow> Evec3" where
  "endPp sy = vadd (pos sy) (vscale (direction sy) (lengthCollision sy * 0.5))"

text \<open>
  The three-way choice of the contact point, the same text for both walls: the contact
  point and \<^verbatim>\<open>phi0\<close> when \<^verbatim>\<open>wallCollide\<close> is set, nothing otherwise.
\<close>

definition wallSelect :: "real \<Rightarrow> real \<Rightarrow> Evec3 \<Rightarrow> Evec3 \<Rightarrow> (Evec3 \<times> real) option" where
  "wallSelect distm distp Pm Pp =
     (if distm < distp \<and> distm < 0 then Some (Pm, distm)
      else if distm > distp \<and> distp < 0 then Some (Pp, distp)
      else if distm = distp \<and> distm < 0 then Some (vscale (vadd Pm Pp) 0.5, distm)
      else None)"

definition wallBlock ::
  "real \<Rightarrow> Sylinder \<Rightarrow> Evec3 \<Rightarrow> real \<Rightarrow> Evec3 \<Rightarrow> real \<Rightarrow> ConstraintBlock" where
  "wallBlock kNone sy colLoc phi0 nrm wall =
     \<lparr>delta0 = phi0, gamma = - phi0, gidI = gid sy, gidJ = gid sy + 1,
      globalIndexI = globalIndex sy, globalIndexJ = globalIndex sy + 1,
      normI = nrm, normJ = (0, 0, 0),
      posI = vsub colLoc (pos sy), posJ = (0, 0, 0),
      labI = colLoc, labJ = (fst colLoc, fst (snd colLoc), wall),
      oneSide = True, kappa = kNone\<rparr>"

definition distmLow :: "real \<Rightarrow> Sylinder \<Rightarrow> real" where
  "distmLow wallBot sy = vz (endPm sy) - wallBot - radius sy"

definition distpLow :: "real \<Rightarrow> Sylinder \<Rightarrow> real" where
  "distpLow wallBot sy = vz (endPp sy) - wallBot - radius sy"

definition distmHigh :: "real \<Rightarrow> Sylinder \<Rightarrow> real" where
  "distmHigh wallTop sy = wallTop - vz (endPm sy) - radius sy"

definition distpHigh :: "real \<Rightarrow> Sylinder \<Rightarrow> real" where
  "distpHigh wallTop sy = wallTop - vz (endPp sy) - radius sy"

text \<open>The body of the loop over the rods for the bottom wall.\<close>

definition wallLowBody :: "real \<Rightarrow> real \<Rightarrow> Sylinder \<Rightarrow> ConstraintBlock option" where
  "wallLowBody kNone wallBot sy =
     (case wallSelect (distmLow wallBot sy) (distpLow wallBot sy) (endPm sy) (endPp sy) of
        None \<Rightarrow> None
      | Some (colLoc, phi0) \<Rightarrow> Some (wallBlock kNone sy colLoc phi0 (0, 0, 1) wallBot))"

text \<open>The body of the loop over the rods for the top wall.\<close>

definition wallHighBody :: "real \<Rightarrow> real \<Rightarrow> Sylinder \<Rightarrow> ConstraintBlock option" where
  "wallHighBody kNone wallTop sy =
     (case wallSelect (distmHigh wallTop sy) (distpHigh wallTop sy) (endPm sy) (endPp sy) of
        None \<Rightarrow> None
      | Some (colLoc, phi0) \<Rightarrow> Some (wallBlock kNone sy colLoc phi0 (0, 0, - 1) wallTop))"

definition collectWallCollision ::
  "SylinderConfig \<Rightarrow> real \<Rightarrow> (nat \<Rightarrow> nat) \<Rightarrow> Sylinder list \<Rightarrow> ConstraintPool \<Rightarrow> ConstraintPool" where
  "collectWallCollision cfg kNone sched bodies pool =
     (let nLocal = length bodies;
          pool1 = (if wallLowZ cfg
                   then poolLoop (wallLowBody kNone (vz (simBoxLow cfg))) sched bodies [0..<nLocal] pool
                   else pool);
          pool2 = (if wallHighZ cfg
                   then poolLoop (wallHighBody kNone (vz (simBoxHigh cfg))) sched bodies [0..<nLocal] pool1
                   else pool1)
      in pool2)"

text \<open>The blocks one thread gains from a loop, in the order it appends them.\<close>

definition threadBlocks ::
  "(Sylinder \<Rightarrow> ConstraintBlock option) \<Rightarrow> (nat \<Rightarrow> nat) \<Rightarrow> Sylinder list \<Rightarrow> nat list \<Rightarrow> nat
    \<Rightarrow> ConstraintBlock list" where
  "threadBlocks f sched bodies idx t =
     List.map_filter (\<lambda>i. f (bodies ! i)) (filter (\<lambda>i. sched i = t) idx)"

text \<open>What one call of \<^verbatim>\<open>collectWallCollision\<close> appends to the queue of thread \<open>t\<close>.\<close>

definition wallNewBlocks ::
  "SylinderConfig \<Rightarrow> real \<Rightarrow> (nat \<Rightarrow> nat) \<Rightarrow> Sylinder list \<Rightarrow> nat \<Rightarrow> ConstraintBlock list" where
  "wallNewBlocks cfg kNone sched bodies t =
     (if wallLowZ cfg
      then threadBlocks (wallLowBody kNone (vz (simBoxLow cfg))) sched bodies [0..<length bodies] t
      else [])
     @ (if wallHighZ cfg
        then threadBlocks (wallHighBody kNone (vz (simBoxHigh cfg))) sched bodies [0..<length bodies] t
        else [])"

text \<open>The contact point by the order of the two signed distances.\<close>

definition wallContactPoint :: "real \<Rightarrow> real \<Rightarrow> Sylinder \<Rightarrow> Evec3" where
  "wallContactPoint dm dp sy =
     (if dm < dp then endPm sy else if dp < dm then endPp sy
      else vscale (vadd (endPm sy) (endPp sy)) 0.5)"

text \<open>Two concrete configurations: the box \<open>z \<in> [0, 1]\<close> with both walls, and with the bottom wall only.\<close>

definition wallsBoth :: SylinderConfig where
  "wallsBoth = \<lparr>wallLowZ = True, wallHighZ = True, simBoxLow = (0, 0, 0), simBoxHigh = (1, 1, 1),
                linkKappa = 100, viscosity = 1, dt = 1 / 100, conResTol = 1 / 1000000,
                conMaxIte = 500\<rparr>"

definition wallLowOnly :: SylinderConfig where
  "wallLowOnly = \<lparr>wallLowZ = True, wallHighZ = False, simBoxLow = (0, 0, 0), simBoxHigh = (1, 1, 1),
                linkKappa = 100, viscosity = 1, dt = 1 / 100, conResTol = 1 / 1000000,
                conMaxIte = 500\<rparr>"

text \<open>
  A rod of length 1 and radius 1/2 centred at height 1, and the block the top wall at 1 gives it.
\<close>

definition rodTop :: Sylinder where
  "rodTop = rodAt 7 0 (0, 0, 1) 1 (1 / 2)"

definition rodTopBlock :: ConstraintBlock where
  "rodTopBlock = wallBlock (- 1) rodTop (0, 0, 3 / 2) (- 1) (0, 0, - 1) 1"

section \<open>Global indices over the ranks\<close>


text \<open>\<^verbatim>\<open>updateSylinderMap\<close> on one rank: \<^verbatim>\<open>globalIndex = i + globalIndexBase\<close>.\<close>

definition updateSylinderMap :: "int \<Rightarrow> Sylinder list \<Rightarrow> Sylinder list" where
  "updateSylinderMap globalIndexBase bodies =
     map (\<lambda>i. (bodies ! i)\<lparr>globalIndex := int i + globalIndexBase\<rparr>) [0..<length bodies]"





section \<open>\<^verbatim>\<open>collectLinkBilateral\<close>\<close>

text \<open>
  The near-body data the cross-rank directory returns for a gid. The directory class is not
  among the sources: its \<^verbatim>\<open>find\<close> is the parameter \<open>dirLookup\<close> below, which fills
  \<^verbatim>\<open>dataToFind\<close> with one entry for each requested gid, in the order of the requests.
\<close>

record SylinderNearEP =
  near_gid :: int
  near_globalIndex :: int
  near_pos :: Evec3
  near_direction :: Evec3
  near_length :: real
  near_radius :: real

datatype LinkError = GidIndexError1 | GidIndexError2

text \<open>
  The block of a link, head of \<open>I\<close> to tail of \<open>J\<close>, from the centre, axis, length, radius
  and identifiers of \<open>J\<close>. Both steps of the function compute it with the same text; the
  stress the code attaches afterwards is not part of the model.
\<close>

definition linkBlock ::
  "real \<Rightarrow> Sylinder \<Rightarrow> Evec3 \<Rightarrow> Evec3 \<Rightarrow> real \<Rightarrow> real \<Rightarrow> int \<Rightarrow> int \<Rightarrow> ConstraintBlock" where
  "linkBlock kap syI centerJ directionJ lengthJ radiusJ gJ giJ =
     (let centerI = pos syI;
          directionI = direction syI;
          Pp = vadd centerI (vscale directionI (0.5 * length_s syI));
          Qm = vsub centerJ (vscale directionJ (0.5 * lengthJ));
          Ploc = Pp;
          Qloc = Qm;
          vecIJ = vsub Ploc Qloc;
          dist = vnorm vecIJ;
          nI = vdiv vecIJ dist;
          nJ = vneg nI;
          pI = vsub Ploc centerI;
          pJ = vsub Qloc centerJ;
          sep = dist - (radius syI + radiusJ) * 1.05;
          gam = - sep * kap
      in \<lparr>delta0 = sep, gamma = gam, gidI = gid syI, gidJ = gJ,
          globalIndexI = globalIndex syI, globalIndexJ = giJ,
          normI = nI, normJ = nJ, posI = pI, posJ = pJ, labI = Ploc, labJ = Qloc,
          oneSide = False, kappa = kap\<rparr>)"

text \<open>Step 1, \<open>J\<close> on this rank.\<close>

definition linkLocalBlock :: "real \<Rightarrow> Sylinder \<Rightarrow> Sylinder \<Rightarrow> ConstraintBlock" where
  "linkLocalBlock kap syI syJ =
     linkBlock kap syI (pos syJ) (direction syJ) (length_s syJ) (radius syJ) (gid syJ) (globalIndex syJ)"

text \<open>Step 2, \<open>J\<close> from the directory.\<close>

definition linkNearBlock :: "real \<Rightarrow> Sylinder \<Rightarrow> SylinderNearEP \<Rightarrow> ConstraintBlock" where
  "linkNearBlock kap syI syNearJ =
     linkBlock kap syI (near_pos syNearJ) (near_direction syNearJ) (near_length syNearJ)
       (near_radius syNearJ) (near_gid syNearJ) (near_globalIndex syNearJ)"

text \<open>Step 1, \<open>J\<close> not on this rank: a block that holds the identifiers of \<open>I\<close> only.\<close>

definition linkPlaceholder :: "int \<Rightarrow> real \<Rightarrow> Sylinder \<Rightarrow> ConstraintBlock" where
  "linkPlaceholder invalid kNone syI =
     \<lparr>delta0 = 0, gamma = 0, gidI = gid syI, gidJ = link_next (link syI),
      globalIndexI = globalIndex syI, globalIndexJ = invalid,
      normI = (0, 0, 1), normJ = (0, 0, 1), posI = (0, 0, 1), posJ = (0, 0, 1),
      labI = (0, 0, 1), labJ = (0, 0, 1), oneSide = False, kappa = kNone\<rparr>"

text \<open>
  The body of the loop of step 1. \<open>invalid\<close> is the value of the macro
  \<^verbatim>\<open>GEO_INVALID_INDEX\<close>, whose definition is not among the sources, and \<open>gidIndex\<close> is
  the index \<^verbatim>\<open>sylinderGidIndex\<close> from gids to positions in the local container.
\<close>

definition linkStep1 ::
  "int \<Rightarrow> real \<Rightarrow> real \<Rightarrow> (int \<rightharpoonup> nat) \<Rightarrow> Sylinder list \<Rightarrow> Sylinder \<Rightarrow> ConstraintBlock option" where
  "linkStep1 invalid kNone kap gidIndex bodies syI =
     (if link_next (link syI) = invalid then None
      else (case gidIndex (link_next (link syI)) of
              Some j \<Rightarrow> Some (linkLocalBlock kap syI (bodies ! j))
            | None \<Rightarrow> Some (linkPlaceholder invalid kNone syI)))"

text \<open>
  Step 2 over one queue, with the running \<^verbatim>\<open>findIndex\<close>: a block whose \<open>J\<close> index is
  invalid is replaced by the block built from the directory's entry; the two
  \<^verbatim>\<open>std::exit(1)\<close> are the errors.
\<close>

fun linkFillQueue ::
  "int \<Rightarrow> real \<Rightarrow> (int \<rightharpoonup> nat) \<Rightarrow> Sylinder list \<Rightarrow> SylinderNearEP list \<Rightarrow> nat
    \<Rightarrow> ConstraintBlock list \<Rightarrow> LinkError + (ConstraintBlock list \<times> nat)" where
  "linkFillQueue invalid kap gidIndex bodies dataToFind findIndex [] = Inr ([], findIndex)"
| "linkFillQueue invalid kap gidIndex bodies dataToFind findIndex (block # rest) =
     (if globalIndexJ block = invalid
      then (case gidIndex (gidI block) of
              None \<Rightarrow> Inl GidIndexError1
            | Some i \<Rightarrow>
                (let syI = bodies ! i; syNearJ = dataToFind ! findIndex
                 in if near_gid syNearJ \<noteq> gidJ block then Inl GidIndexError2
                    else (case linkFillQueue invalid kap gidIndex bodies dataToFind (findIndex + 1) rest of
                            Inl e \<Rightarrow> Inl e
                          | Inr (rest', k) \<Rightarrow> Inr (linkNearBlock kap syI syNearJ # rest', k))))
      else (case linkFillQueue invalid kap gidIndex bodies dataToFind findIndex rest of
              Inl e \<Rightarrow> Inl e
            | Inr (rest', k) \<Rightarrow> Inr (block # rest', k)))"

text \<open>Step 2 over the queues of the pool, in order.\<close>

fun linkFillPool ::
  "int \<Rightarrow> real \<Rightarrow> (int \<rightharpoonup> nat) \<Rightarrow> Sylinder list \<Rightarrow> SylinderNearEP list \<Rightarrow> nat
    \<Rightarrow> ConstraintPool \<Rightarrow> LinkError + (ConstraintPool \<times> nat)" where
  "linkFillPool invalid kap gidIndex bodies dataToFind findIndex [] = Inr ([], findIndex)"
| "linkFillPool invalid kap gidIndex bodies dataToFind findIndex (cQue # rest) =
     (case linkFillQueue invalid kap gidIndex bodies dataToFind findIndex cQue of
        Inl e \<Rightarrow> Inl e
      | Inr (cQue', k) \<Rightarrow>
          (case linkFillPool invalid kap gidIndex bodies dataToFind k rest of
             Inl e \<Rightarrow> Inl e
           | Inr (rest', k') \<Rightarrow> Inr (cQue' # rest', k')))"

text \<open>
  The whole function on the bilateral pool: every thread clears its queue and runs its
  share of the loop of step 1; step 2 asks the directory for the gids of the blocks whose
  \<open>J\<close> is not local and fills these blocks in.
\<close>

definition collectLinkBilateral ::
  "int \<Rightarrow> real \<Rightarrow> SylinderConfig \<Rightarrow> (nat \<Rightarrow> nat) \<Rightarrow> (int \<rightharpoonup> nat) \<Rightarrow> (int \<Rightarrow> SylinderNearEP)
    \<Rightarrow> Sylinder list \<Rightarrow> ConstraintPool \<Rightarrow> LinkError + ConstraintPool" where
  "collectLinkBilateral invalid kNone cfg sched gidIndex dirLookup bodies cPool =
     (let nLocal = length bodies;
          kap = linkKappa cfg;
          cPool1 = poolLoop (linkStep1 invalid kNone kap gidIndex bodies) sched bodies [0..<nLocal]
                     (map (\<lambda>cQue. []) cPool);
          gidToFind = map gidJ (filter (\<lambda>block. globalIndexJ block = invalid) (concat cPool1));
          dataToFind = map dirLookup gidToFind
      in case linkFillPool invalid kap gidIndex bodies dataToFind 0 cPool1 of
           Inl e \<Rightarrow> Inl e
         | Inr (cPool2, k) \<Rightarrow> Inr cPool2)"




text \<open>
  A rod that declares a next link, a chain of two rods on one rank (the first linked to the second), its gid index, and a directory that knows no body.
\<close>

definition rodLinked :: "int \<Rightarrow> int \<Rightarrow> Evec3 \<Rightarrow> real \<Rightarrow> real \<Rightarrow> int \<Rightarrow> Sylinder" where
  "rodLinked g gi p len r nxt = (rodAt g gi p len r)\<lparr>link := \<lparr>link_group = 0, link_prev = - 1, link_next = nxt\<rparr>\<rparr>"

definition chain2 :: "Sylinder list" where
  "chain2 = [rodLinked 1 0 (0, 0, 0) 1 (1 / 4) 2, rodAt 2 1 (0, 0, 2) 1 (1 / 4)]"




section \<open>\<^verbatim>\<open>collectPairCollision\<close>\<close>

text \<open>
  The loop at the end of \<^verbatim>\<open>collectPairCollision\<close>, on one block of the bilateral pool:
  a negative spring constant is replaced by \<^verbatim>\<open>linkKappa\<close> and the multiplier is set from
  the new spring constant and the gap.
\<close>

definition defaultKappa :: "SylinderConfig \<Rightarrow> ConstraintBlock \<Rightarrow> ConstraintBlock" where
  "defaultKappa cfg block =
     (if kappa block < 0
      then (let block1 = block\<lparr>kappa := linkKappa cfg\<rparr>
            in block1\<lparr>gamma := kappa block1 * delta0 block1\<rparr>)
      else block)"

text \<open>
  The near-force functor and the neighbour tree are not among the sources. The functor is
  handed the two pools and appends to them during \<^verbatim>\<open>calcForceAll\<close>: its effect on the
  pair of pools is the parameter \<open>calcColFtr\<close>. The field \<^verbatim>\<open>sepmin\<close> the function also
  stores is not part of the model.
\<close>

type_synonym NearForce = "Sylinder list \<Rightarrow> ConstraintPool \<times> ConstraintPool \<Rightarrow> ConstraintPool \<times> ConstraintPool"

definition collectPairCollision ::
  "SylinderConfig \<Rightarrow> NearForce \<Rightarrow> Sylinder list \<Rightarrow> ConstraintPool \<times> ConstraintPool
    \<Rightarrow> ConstraintPool \<times> ConstraintPool" where
  "collectPairCollision cfg calcColFtr bodies pools =
     (case calcColFtr bodies pools of
        (uni, bi) \<Rightarrow> (uni, map (\<lambda>queue. map (defaultKappa cfg) queue) bi))"

section \<open>\<^verbatim>\<open>resolveConstraints\<close>\<close>

text \<open>
  The calls a step makes, in the order it makes them: each routine of the system and each
  method of the solver adds its name to the trace when it is entered; \<^verbatim>\<open>setup\<close> is
  recorded with the two pools and the timestep it is given, \<^verbatim>\<open>setControlParams\<close> with
  its arguments.
\<close>

datatype Event =
    CollectPairCollision
  | CollectWallCollision
  | CollectLinkBilateral
  | Setup ConstraintPool ConstraintPool real
  | SetControlParams real int
  | SolveConstraints
  | WritebackGamma
  | SaveVelocityConstraints

text \<open>The solver's control parameters, which \<^verbatim>\<open>setControlParams\<close> stores.\<close>

record ConstraintSolver =
  res :: real
  maxIte :: int

record SylinderSystem =
  runConfig :: SylinderConfig
  sylinderContainer :: "Sylinder list"
  uniConstraint :: ConstraintPool
  biConstraint :: ConstraintPool
  constraintSolver :: ConstraintSolver
  trace :: "Event list"

definition sys_collectPairCollision :: "NearForce \<Rightarrow> SylinderSystem \<Rightarrow> SylinderSystem" where
  "sys_collectPairCollision calcColFtr s =
     (case collectPairCollision (runConfig s) calcColFtr (sylinderContainer s)
             (uniConstraint s, biConstraint s) of
        (uni, bi) \<Rightarrow> s\<lparr>uniConstraint := uni, biConstraint := bi,
                        trace := trace s @ [CollectPairCollision]\<rparr>)"

definition sys_collectWallCollision :: "real \<Rightarrow> (nat \<Rightarrow> nat) \<Rightarrow> SylinderSystem \<Rightarrow> SylinderSystem" where
  "sys_collectWallCollision kNone sched s =
     s\<lparr>uniConstraint := collectWallCollision (runConfig s) kNone sched (sylinderContainer s) (uniConstraint s),
       trace := trace s @ [CollectWallCollision]\<rparr>"

definition sys_collectLinkBilateral ::
  "int \<Rightarrow> real \<Rightarrow> (nat \<Rightarrow> nat) \<Rightarrow> (int \<rightharpoonup> nat) \<Rightarrow> (int \<Rightarrow> SylinderNearEP) \<Rightarrow> SylinderSystem
    \<Rightarrow> LinkError + SylinderSystem" where
  "sys_collectLinkBilateral invalid kNone sched gidIndex dirLookup s =
     (case collectLinkBilateral invalid kNone (runConfig s) sched gidIndex dirLookup
             (sylinderContainer s) (biConstraint s) of
        Inl e \<Rightarrow> Inl e
      | Inr bi \<Rightarrow> Inr (s\<lparr>biConstraint := bi, trace := trace s @ [CollectLinkBilateral]\<rparr>))"

text \<open>
  The solver's methods. Of these only \<^verbatim>\<open>setControlParams\<close> has its body among the
  sources; the others are recorded in the trace, and what \<^verbatim>\<open>writebackGamma\<close> stores
  into the blocks of the two pools is the parameter \<open>wb\<close>.
\<close>

definition solver_setup :: "SylinderSystem \<Rightarrow> SylinderSystem" where
  "solver_setup s =
     s\<lparr>trace := trace s @ [Setup (uniConstraint s) (biConstraint s) (dt (runConfig s))]\<rparr>"

definition setControlParams :: "real \<Rightarrow> int \<Rightarrow> SylinderSystem \<Rightarrow> SylinderSystem" where
  "setControlParams res0 maxIte0 s =
     s\<lparr>constraintSolver := \<lparr>res = res0, maxIte = maxIte0\<rparr>,
       trace := trace s @ [SetControlParams res0 maxIte0]\<rparr>"

definition solveConstraints :: "SylinderSystem \<Rightarrow> SylinderSystem" where
  "solveConstraints s = s\<lparr>trace := trace s @ [SolveConstraints]\<rparr>"

definition writebackGamma ::
  "(ConstraintPool \<times> ConstraintPool \<Rightarrow> ConstraintPool \<times> ConstraintPool) \<Rightarrow> SylinderSystem \<Rightarrow> SylinderSystem" where
  "writebackGamma wb s =
     (case wb (uniConstraint s, biConstraint s) of
        (uni, bi) \<Rightarrow> s\<lparr>uniConstraint := uni, biConstraint := bi, trace := trace s @ [WritebackGamma]\<rparr>)"

definition saveVelocityConstraints :: "SylinderSystem \<Rightarrow> SylinderSystem" where
  "saveVelocityConstraints s = s\<lparr>trace := trace s @ [SaveVelocityConstraints]\<rparr>"

text \<open>
  The routine, statement by statement. The call of \<^verbatim>\<open>collectLinkBilateral\<close> is commented
  out in the source and so is absent here; \<^verbatim>\<open>setup\<close> comes before
  \<^verbatim>\<open>setControlParams\<close> as in the source.
\<close>

definition resolveConstraints ::
  "real \<Rightarrow> (nat \<Rightarrow> nat) \<Rightarrow> NearForce \<Rightarrow> (ConstraintPool \<times> ConstraintPool \<Rightarrow> ConstraintPool \<times> ConstraintPool)
    \<Rightarrow> SylinderSystem \<Rightarrow> SylinderSystem" where
  "resolveConstraints kNone sched calcColFtr wb s =
     (let s1 = sys_collectPairCollision calcColFtr s;
          s2 = sys_collectWallCollision kNone sched s1;
          s3 = solver_setup s2;
          s4 = setControlParams (conResTol (runConfig s3)) (conMaxIte (runConfig s3)) s3;
          s5 = solveConstraints s4;
          s6 = writebackGamma wb s5
      in saveVelocityConstraints s6)"

text \<open>The solver's methods among the events of a trace, by name.\<close>

datatype SolverCall = KSetup | KSetControlParams | KSolveConstraints | KWritebackGamma

fun solverCall :: "Event \<Rightarrow> SolverCall option" where
  "solverCall (Setup u b d) = Some KSetup"
| "solverCall (SetControlParams r m) = Some KSetControlParams"
| "solverCall SolveConstraints = Some KSolveConstraints"
| "solverCall WritebackGamma = Some KWritebackGamma"
| "solverCall e = None"

definition solverCalls :: "Event list \<Rightarrow> SolverCall list" where
  "solverCalls tr = List.map_filter solverCall tr"

text \<open>\<open>a\<close> is called, and \<open>b\<close> is called at some point after the first call of \<open>a\<close>.\<close>

definition calledBefore :: "'a \<Rightarrow> 'a \<Rightarrow> 'a list \<Rightarrow> bool" where
  "calledBefore a b xs = (b \<in> set (dropWhile (\<lambda>x. x \<noteq> a) xs))"

text \<open>The events of a trace before the first call of \<^verbatim>\<open>setup\<close>.\<close>

fun isSetup :: "Event \<Rightarrow> bool" where
  "isSetup (Setup u b d) = True"
| "isSetup e = False"

definition beforeSetup :: "Event list \<Rightarrow> Event list" where
  "beforeSetup tr = takeWhile (\<lambda>e. \<not> isSetup e) tr"

text \<open>A bilateral block as the near-force functor leaves it: gap 1/100, spring constant unset.\<close>

definition unsetLink :: ConstraintBlock where
  "unsetLink =
     \<lparr>delta0 = 1 / 100, gamma = 0, gidI = 1, gidJ = 2, globalIndexI = 0, globalIndexJ = 1,
      normI = (0, 0, - 1), normJ = (0, 0, 1), posI = (0, 0, 1 / 2), posJ = (0, 0, - (1 / 2)),
      labI = (0, 0, 1 / 2), labJ = (0, 0, 3 / 2), oneSide = False, kappa = - 1\<rparr>"

definition emitOneLink :: NearForce where
  "emitOneLink bodies pools = (case pools of (uni, bi) \<Rightarrow> (uni, emplace_back 0 unsetLink bi))"

definition emitNothing :: NearForce where
  "emitNothing bodies pools = pools"

text \<open>A system at its first step: two linked rods, empty pools, a solver no method was called on.\<close>

definition firstStep :: SylinderSystem where
  "firstStep =
     \<lparr>runConfig = wallsBoth, sylinderContainer = chain2, uniConstraint = [[]], biConstraint = [[]],
      constraintSolver = \<lparr>res = 0, maxIte = 0\<rparr>, trace = []\<rparr>"

text \<open>
  The pools a call of \<^verbatim>\<open>setup\<close> was given.
\<close>

fun setupUniPool :: "Event \<Rightarrow> ConstraintPool option" where
  "setupUniPool (Setup u b d) = Some u"
| "setupUniPool e = None"

fun setupBiPool :: "Event \<Rightarrow> ConstraintPool option" where
  "setupBiPool (Setup u b d) = Some b"
| "setupBiPool e = None"

text \<open>
  The events one call of \<^verbatim>\<open>resolveConstraints\<close> adds to the trace.
\<close>

definition stepEvents ::
  "real \<Rightarrow> (nat \<Rightarrow> nat) \<Rightarrow> NearForce \<Rightarrow> (ConstraintPool \<times> ConstraintPool \<Rightarrow> ConstraintPool \<times> ConstraintPool)
    \<Rightarrow> SylinderSystem \<Rightarrow> Event list" where
  "stepEvents kNone sched calcColFtr wb s =
     drop (length (trace s)) (trace (resolveConstraints kNone sched calcColFtr wb s))"

section \<open>\<^verbatim>\<open>addNewSylinder\<close>\<close>



text \<open>\<^verbatim>\<open>std::partial_sum\<close>: the running sums of a sequence.\<close>

fun partial_sum_from :: "nat \<Rightarrow> nat list \<Rightarrow> nat list" where
  "partial_sum_from acc [] = []"
| "partial_sum_from acc (x # xs) = (acc + x) # partial_sum_from (acc + x) xs"










section \<open>Drag coefficients: sign\<close>

lemma Pi_pos: "0 < Pi"
  by (simp add: Pi_def)

lemma drag_b_pos_iff:
  assumes "0 < length_s sy" and "0 < radius sy"
  shows "0 < drag_b sy \<longleftrightarrow> radius sy / length_s sy < exp (- (1 / 2))"
proof -
  have q: "0 < radius sy / length_s sy"
    using assms by simp
  have "0 < drag_b sy \<longleftrightarrow> ln (radius sy / length_s sy) < - (1 / 2)"
    by (simp add: drag_b_def Let_def) linarith
  also have "\<dots> \<longleftrightarrow> ln (radius sy / length_s sy) < ln (exp (- (1 / 2)))"
    by simp
  also have "\<dots> \<longleftrightarrow> radius sy / length_s sy < exp (- (1 / 2))"
    using q by (simp only: ln_less_cancel_iff exp_gt_zero)
  finally show ?thesis .
qed

text \<open>
  C7 (as the code has it). The three drag coefficients divide by \<open>2 b\<close> and \<open>b + 2\<close> with
  \<open>b = - (1 + 2 ln (r / l))\<close>. Positive length, radius and viscosity make them positive
  when the rod is slender enough for \<open>b\<close> to be positive, that is \<open>r / l < exp (- 1/2)\<close>.
\<close>

theorem drag_coefficients_positive_slender:
  assumes "0 < length_s sy" and "0 < radius sy" and "0 < mu"
    and "radius sy / length_s sy < exp (- (1 / 2))"
  shows "0 < dragPara mu sy \<and> 0 < dragPerp mu sy \<and> 0 < dragRot mu sy"
proof -
  have b: "0 < drag_b sy"
    using assms drag_b_pos_iff by blast
  have b2: "0 < drag_b sy + 2"
    using b by linarith
  have n1: "0 < 8 * Pi * length_s sy * mu"
    using assms Pi_pos by simp
  have n2: "0 < 2 * Pi * mu * length_s sy * length_s sy * length_s sy"
    using assms Pi_pos by simp
  have "0 < dragPara mu sy"
    unfolding dragPara_def using n1 b by (intro divide_pos_pos) simp_all
  moreover have "0 < dragPerp mu sy"
    unfolding dragPerp_def using n1 b2 by (intro divide_pos_pos) simp_all
  moreover have "0 < dragRot mu sy"
    unfolding dragRot_def using n2 b2 by (intro divide_pos_pos) simp_all
  ultimately show ?thesis by simp
qed

lemma quarter_less_exp_neg_half: "(1 / 4 :: real) < exp (- (1 / 2))"
proof -
  have "exp (1 / 2 :: real) \<le> exp 1"
    by simp
  also have "\<dots> \<le> 3"
    by (rule exp_le)
  finally have e4: "exp (1 / 2 :: real) < 4"
    by linarith
  have "1 / 4 < 1 / exp (1 / 2 :: real)"
    by (rule divide_strict_left_mono) (use e4 in simp_all)
  also have "1 / exp (1 / 2 :: real) = exp (- (1 / 2))"
    by (simp only: exp_minus inverse_eq_divide)
  finally show ?thesis .
qed

theorem drag_coefficients_positive_slender_witness:
  "0 < length_s (rodAt 0 0 (0, 0, 0) 1 (1 / 4)) \<and> 0 < radius (rodAt 0 0 (0, 0, 0) 1 (1 / 4))
   \<and> (0 :: real) < 1
   \<and> radius (rodAt 0 0 (0, 0, 0) 1 (1 / 4)) / length_s (rodAt 0 0 (0, 0, 0) 1 (1 / 4)) < exp (- (1 / 2))
   \<and> 0 < dragPara 1 (rodAt 0 0 (0, 0, 0) 1 (1 / 4))
   \<and> 0 < dragPerp 1 (rodAt 0 0 (0, 0, 0) 1 (1 / 4))
   \<and> 0 < dragRot 1 (rodAt 0 0 (0, 0, 0) 1 (1 / 4))"
proof -
  have h1: "0 < length_s (rodAt 0 0 (0, 0, 0) 1 (1 / 4))"
    by (simp add: rodAt_def)
  have h2: "0 < radius (rodAt 0 0 (0, 0, 0) 1 (1 / 4))"
    by (simp add: rodAt_def)
  have h3: "(0 :: real) < 1"
    by simp
  have h4: "radius (rodAt 0 0 (0, 0, 0) 1 (1 / 4)) / length_s (rodAt 0 0 (0, 0, 0) 1 (1 / 4))
            < exp (- (1 / 2))"
    using quarter_less_exp_neg_half by (simp add: rodAt_def)
  show ?thesis
    using h1 h2 h3 h4 drag_coefficients_positive_slender [OF h1 h2 h3 h4] by blast
qed

text \<open>
  C7 (as stated) fails for a thick rod: with length 1, radius 1 and viscosity 1 the
  logarithm vanishes, \<open>b = - 1\<close>, and the parallel drag coefficient is \<open>- 4 Pi\<close>.
\<close>

theorem drag_coefficients_positive_counterexample:
  "0 < length_s (rodAt 0 0 (0, 0, 0) 1 1) \<and> 0 < radius (rodAt 0 0 (0, 0, 0) 1 1) \<and> (0 :: real) < 1
   \<and> \<not> (0 < dragPara 1 (rodAt 0 0 (0, 0, 0) 1 1))"
  by (simp add: rodAt_def dragPara_def drag_b_def Pi_def)

section \<open>Wall contacts\<close>

lemma emplace_back_length: "length (emplace_back t b pool) = length pool"
  by (simp add: emplace_back_def)

lemma poolLoop_length: "length (poolLoop f sched bodies idx pool) = length pool"
  unfolding poolLoop_def
  by (induction idx arbitrary: pool) (auto simp: emplace_back_length split: option.splits)

lemma poolLoop_nth:
  "t < length pool \<Longrightarrow>
   poolLoop f sched bodies idx pool ! t = pool ! t @ threadBlocks f sched bodies idx t"
proof (induction idx arbitrary: pool)
  case Nil
  then show ?case by (simp add: poolLoop_def threadBlocks_def)
next
  case (Cons i idx)
  show ?case
  proof (cases "f (bodies ! i)")
    case None
    have "poolLoop f sched bodies (i # idx) pool = poolLoop f sched bodies idx pool"
      using None by (simp add: poolLoop_def)
    moreover have "threadBlocks f sched bodies (i # idx) t = threadBlocks f sched bodies idx t"
      using None by (simp add: threadBlocks_def)
    ultimately show ?thesis using Cons by simp
  next
    case (Some b)
    let ?p = "emplace_back (sched i) b pool"
    have step: "poolLoop f sched bodies (i # idx) pool = poolLoop f sched bodies idx ?p"
      using Some by (simp add: poolLoop_def)
    have len: "t < length ?p"
      using Cons.prems by (simp add: emplace_back_length)
    have ih: "poolLoop f sched bodies idx ?p ! t = ?p ! t @ threadBlocks f sched bodies idx t"
      by (rule Cons.IH [OF len])
    show ?thesis
    proof (cases "sched i = t")
      case True
      have "?p ! t = pool ! t @ [b]"
        using True Cons.prems by (simp add: emplace_back_def)
      moreover have "threadBlocks f sched bodies (i # idx) t = b # threadBlocks f sched bodies idx t"
        using True Some by (simp add: threadBlocks_def)
      ultimately show ?thesis using step ih by simp
    next
      case False
      have "?p ! t = pool ! t"
        using False by (simp add: emplace_back_def)
      moreover have "threadBlocks f sched bodies (i # idx) t = threadBlocks f sched bodies idx t"
        using False by (simp add: threadBlocks_def)
      ultimately show ?thesis using step ih by simp
    qed
  qed
qed

lemma collectWallCollision_length:
  "length (collectWallCollision cfg kNone sched bodies pool) = length pool"
  by (simp add: collectWallCollision_def Let_def poolLoop_length)

lemma collectWallCollision_nth:
  "t < length pool \<Longrightarrow>
   collectWallCollision cfg kNone sched bodies pool ! t
     = pool ! t @ wallNewBlocks cfg kNone sched bodies t"
  by (simp add: collectWallCollision_def Let_def wallNewBlocks_def poolLoop_nth poolLoop_length)

lemma wallSelect_None: "wallSelect dm dp Pm Pp = None \<longleftrightarrow> 0 \<le> min dm dp"
  by (cases "dm < dp"; cases "dp < dm"; cases "dm < 0"; cases "dp < 0")
     (simp_all add: wallSelect_def min_def)

lemma wallSelect_Some:
  "wallSelect dm dp Pm Pp = Some (c, phi) \<Longrightarrow>
     phi = min dm dp \<and> phi < 0 \<and>
     c = (if dm < dp then Pm else if dp < dm then Pp else vscale (vadd Pm Pp) 0.5)"
  unfolding wallSelect_def min_def by (simp split: if_splits)

lemma wallLowBody_None:
  "wallLowBody kNone wallBot sy = None \<longleftrightarrow> 0 \<le> min (distmLow wallBot sy) (distpLow wallBot sy)"
proof -
  have "(wallLowBody kNone wallBot sy = None)
        = (wallSelect (distmLow wallBot sy) (distpLow wallBot sy) (endPm sy) (endPp sy) = None)"
    by (cases "wallSelect (distmLow wallBot sy) (distpLow wallBot sy) (endPm sy) (endPp sy)")
       (auto simp: wallLowBody_def)
  then show ?thesis by (simp only: wallSelect_None)
qed

lemma wallHighBody_None:
  "wallHighBody kNone wallTop sy = None \<longleftrightarrow> 0 \<le> min (distmHigh wallTop sy) (distpHigh wallTop sy)"
proof -
  have "(wallHighBody kNone wallTop sy = None)
        = (wallSelect (distmHigh wallTop sy) (distpHigh wallTop sy) (endPm sy) (endPp sy) = None)"
    by (cases "wallSelect (distmHigh wallTop sy) (distpHigh wallTop sy) (endPm sy) (endPp sy)")
       (auto simp: wallHighBody_def)
  then show ?thesis by (simp only: wallSelect_None)
qed

lemma wallLowBody_Some:
  assumes "wallLowBody kNone wallBot sy = Some b"
  shows "b = wallBlock kNone sy (wallContactPoint (distmLow wallBot sy) (distpLow wallBot sy) sy)
               (min (distmLow wallBot sy) (distpLow wallBot sy)) (0, 0, 1) wallBot"
proof -
  obtain c phi where sel: "wallSelect (distmLow wallBot sy) (distpLow wallBot sy) (endPm sy) (endPp sy) = Some (c, phi)"
    and b: "b = wallBlock kNone sy c phi (0, 0, 1) wallBot"
    using assms by (auto simp: wallLowBody_def split: option.splits)
  show ?thesis
    using wallSelect_Some [OF sel] b by (simp add: wallContactPoint_def)
qed

lemma wallHighBody_Some:
  assumes "wallHighBody kNone wallTop sy = Some b"
  shows "b = wallBlock kNone sy (wallContactPoint (distmHigh wallTop sy) (distpHigh wallTop sy) sy)
               (min (distmHigh wallTop sy) (distpHigh wallTop sy)) (0, 0, - 1) wallTop"
proof -
  obtain c phi where sel: "wallSelect (distmHigh wallTop sy) (distpHigh wallTop sy) (endPm sy) (endPp sy) = Some (c, phi)"
    and b: "b = wallBlock kNone sy c phi (0, 0, - 1) wallTop"
    using assms by (auto simp: wallHighBody_def split: option.splits)
  show ?thesis
    using wallSelect_Some [OF sel] b by (simp add: wallContactPoint_def)
qed

text \<open>
  C4 (as the code has it). For thread \<open>t\<close>, a call appends to its queue the bottom-wall
  blocks of its rods in loop order and then the top-wall blocks. A rod gives a block for a
  wall exactly when the smaller of its two end distances is strictly negative (a rod that
  only touches the wall gives none). The block is one-sided with no spring constant, its
  contact point is the end with the smaller distance (the midpoint when they are equal),
  its gap is that smaller distance, its initial multiplier the negated gap, \<open>normJ\<close> is zero
  and \<open>normI\<close> is \<open>+z\<close> for the bottom wall and \<open>-z\<close> for the top wall.
\<close>

theorem wall_collision_emission:
  assumes "t < length pool"
  shows
    "collectWallCollision cfg kNone sched bodies pool ! t
       = pool ! t
         @ (if wallLowZ cfg
            then threadBlocks (wallLowBody kNone (vz (simBoxLow cfg))) sched bodies [0..<length bodies] t
            else [])
         @ (if wallHighZ cfg
            then threadBlocks (wallHighBody kNone (vz (simBoxHigh cfg))) sched bodies [0..<length bodies] t
            else [])
     \<and> ((wallLowBody kNone wallBot sy \<noteq> None)
          = (min (distmLow wallBot sy) (distpLow wallBot sy) < 0))
     \<and> ((wallHighBody kNone wallTop sy \<noteq> None)
          = (min (distmHigh wallTop sy) (distpHigh wallTop sy) < 0))
     \<and> (\<forall>b. wallLowBody kNone wallBot sy = Some b \<longrightarrow>
            oneSide b \<and> kappa b = kNone
          \<and> labI b = wallContactPoint (distmLow wallBot sy) (distpLow wallBot sy) sy
          \<and> posI b = vsub (labI b) (pos sy)
          \<and> delta0 b = min (distmLow wallBot sy) (distpLow wallBot sy)
          \<and> gamma b = - delta0 b
          \<and> normJ b = (0, 0, 0) \<and> normI b = (0, 0, 1))
     \<and> (\<forall>b. wallHighBody kNone wallTop sy = Some b \<longrightarrow>
            oneSide b \<and> kappa b = kNone
          \<and> labI b = wallContactPoint (distmHigh wallTop sy) (distpHigh wallTop sy) sy
          \<and> posI b = vsub (labI b) (pos sy)
          \<and> delta0 b = min (distmHigh wallTop sy) (distpHigh wallTop sy)
          \<and> gamma b = - delta0 b
          \<and> normJ b = (0, 0, 0) \<and> normI b = (0, 0, - 1))"
proof -
  have A: "collectWallCollision cfg kNone sched bodies pool ! t
       = pool ! t
         @ (if wallLowZ cfg
            then threadBlocks (wallLowBody kNone (vz (simBoxLow cfg))) sched bodies [0..<length bodies] t
            else [])
         @ (if wallHighZ cfg
            then threadBlocks (wallHighBody kNone (vz (simBoxHigh cfg))) sched bodies [0..<length bodies] t
            else [])"
    using collectWallCollision_nth [OF assms] by (simp add: wallNewBlocks_def)
  have B: "(wallLowBody kNone wallBot sy \<noteq> None)
          = (min (distmLow wallBot sy) (distpLow wallBot sy) < 0)"
    using wallLowBody_None [of kNone wallBot sy] by auto
  have C: "(wallHighBody kNone wallTop sy \<noteq> None)
          = (min (distmHigh wallTop sy) (distpHigh wallTop sy) < 0)"
    using wallHighBody_None [of kNone wallTop sy] by auto
  have D: "\<forall>b. wallLowBody kNone wallBot sy = Some b \<longrightarrow>
            oneSide b \<and> kappa b = kNone
          \<and> labI b = wallContactPoint (distmLow wallBot sy) (distpLow wallBot sy) sy
          \<and> posI b = vsub (labI b) (pos sy)
          \<and> delta0 b = min (distmLow wallBot sy) (distpLow wallBot sy)
          \<and> gamma b = - delta0 b
          \<and> normJ b = (0, 0, 0) \<and> normI b = (0, 0, 1)"
  proof (intro allI impI)
    fix b assume "wallLowBody kNone wallBot sy = Some b"
    from wallLowBody_Some [OF this]
    show "oneSide b \<and> kappa b = kNone
          \<and> labI b = wallContactPoint (distmLow wallBot sy) (distpLow wallBot sy) sy
          \<and> posI b = vsub (labI b) (pos sy)
          \<and> delta0 b = min (distmLow wallBot sy) (distpLow wallBot sy)
          \<and> gamma b = - delta0 b
          \<and> normJ b = (0, 0, 0) \<and> normI b = (0, 0, 1)"
      by (simp add: wallBlock_def)
  qed
  have E: "\<forall>b. wallHighBody kNone wallTop sy = Some b \<longrightarrow>
            oneSide b \<and> kappa b = kNone
          \<and> labI b = wallContactPoint (distmHigh wallTop sy) (distpHigh wallTop sy) sy
          \<and> posI b = vsub (labI b) (pos sy)
          \<and> delta0 b = min (distmHigh wallTop sy) (distpHigh wallTop sy)
          \<and> gamma b = - delta0 b
          \<and> normJ b = (0, 0, 0) \<and> normI b = (0, 0, - 1)"
  proof (intro allI impI)
    fix b assume "wallHighBody kNone wallTop sy = Some b"
    from wallHighBody_Some [OF this]
    show "oneSide b \<and> kappa b = kNone
          \<and> labI b = wallContactPoint (distmHigh wallTop sy) (distpHigh wallTop sy) sy
          \<and> posI b = vsub (labI b) (pos sy)
          \<and> delta0 b = min (distmHigh wallTop sy) (distpHigh wallTop sy)
          \<and> gamma b = - delta0 b
          \<and> normJ b = (0, 0, 0) \<and> normI b = (0, 0, - 1)"
      by (simp add: wallBlock_def)
  qed
  from A B C D E show ?thesis by blast
qed

lemma direction_rodAt: "direction (rodAt g gi p len r) = (0, 0, 1)"
  by (simp add: direction_def rodAt_def quatRotate_def Let_def vcross_def vadd_def vscale_def)

lemma ends_rodAt:
  "endPm (rodAt g gi (x, y, z) len r) = (x, y, z - len * 0.5)"
  "endPp (rodAt g gi (x, y, z) len r) = (x, y, z + len * 0.5)"
  by (simp_all add: endPm_def endPp_def direction_rodAt vsub_def vadd_def vscale_def)
     (simp_all add: rodAt_def)

text \<open>
  C4 (as stated) fails for a rod that touches the wall: with the bottom wall at 0, a rod
  of length 1 and radius 1/2 centred at height 1 has end distances 0 and 1, not both
  positive, and no block is emitted.
\<close>

theorem wall_collision_touching_counterexample:
  "\<not> (0 < distmLow (vz (simBoxLow wallLowOnly)) (rodAt 7 0 (0, 0, 1) 1 (1 / 2))
       \<and> 0 < distpLow (vz (simBoxLow wallLowOnly)) (rodAt 7 0 (0, 0, 1) 1 (1 / 2)))
   \<and> collectWallCollision wallLowOnly (- 1) (\<lambda>i. 0) [rodAt 7 0 (0, 0, 1) 1 (1 / 2)] [[]] = [[]]"
proof -
  have dm: "distmLow 0 (rodAt 7 0 (0, 0, 1) 1 (1 / 2)) = 0"
    by (simp add: distmLow_def ends_rodAt vz_def) (simp add: rodAt_def)
  have dp: "distpLow 0 (rodAt 7 0 (0, 0, 1) 1 (1 / 2)) = 1"
    by (simp add: distpLow_def ends_rodAt vz_def) (simp add: rodAt_def)
  have "wallLowBody (- 1) 0 (rodAt 7 0 (0, 0, 1) 1 (1 / 2)) = None"
    by (simp add: wallLowBody_def dm dp wallSelect_def)
  then have "collectWallCollision wallLowOnly (- 1) (\<lambda>i. 0) [rodAt 7 0 (0, 0, 1) 1 (1 / 2)] [[]] = [[]]"
    by (simp add: collectWallCollision_def wallLowOnly_def poolLoop_def vz_def)
  then show ?thesis
    using dm by (simp add: wallLowOnly_def vz_def)
qed

theorem wall_collision_emission_witness:
  "(0 :: nat) < length [[] :: ConstraintBlock list]
   \<and> collectWallCollision wallsBoth (- 1) (\<lambda>i. 0) [rodAt 7 0 (0, 0, 1) 1 (1 / 2)] [[]] ! 0
       = [wallBlock (- 1) (rodAt 7 0 (0, 0, 1) 1 (1 / 2)) (0, 0, 3 / 2) (- 1) (0, 0, - 1) 1]
   \<and> wallHighBody (- 1) 1 (rodAt 7 0 (0, 0, 1) 1 (1 / 2))
       = Some (wallBlock (- 1) (rodAt 7 0 (0, 0, 1) 1 (1 / 2)) (0, 0, 3 / 2) (- 1) (0, 0, - 1) 1)
   \<and> oneSide (wallBlock (- 1) (rodAt 7 0 (0, 0, 1) 1 (1 / 2)) (0, 0, 3 / 2) (- 1) (0, 0, - 1) 1)
   \<and> delta0 (wallBlock (- 1) (rodAt 7 0 (0, 0, 1) 1 (1 / 2)) (0, 0, 3 / 2) (- 1) (0, 0, - 1) 1)
       = min (distmHigh 1 (rodAt 7 0 (0, 0, 1) 1 (1 / 2))) (distpHigh 1 (rodAt 7 0 (0, 0, 1) 1 (1 / 2)))"
proof -
  let ?sy = "rodAt 7 0 (0, 0, 1) 1 (1 / 2)"
  let ?b = "wallBlock (- 1) ?sy (0, 0, 3 / 2) (- 1) (0, 0, - 1) 1"
  have h: "(0 :: nat) < length [[] :: ConstraintBlock list]"
    by simp
  have dmL: "distmLow 0 ?sy = 0"
    by (simp add: distmLow_def ends_rodAt vz_def) (simp add: rodAt_def)
  have dpL: "distpLow 0 ?sy = 1"
    by (simp add: distpLow_def ends_rodAt vz_def) (simp add: rodAt_def)
  have dmH: "distmHigh 1 ?sy = 0"
    by (simp add: distmHigh_def ends_rodAt vz_def) (simp add: rodAt_def)
  have dpH: "distpHigh 1 ?sy = - 1"
    by (simp add: distpHigh_def ends_rodAt vz_def) (simp add: rodAt_def)
  have low: "wallLowBody (- 1) 0 ?sy = None"
    by (simp add: wallLowBody_def dmL dpL wallSelect_def)
  have high: "wallHighBody (- 1) 1 ?sy = Some ?b"
    by (simp add: wallHighBody_def dmH dpH wallSelect_def ends_rodAt)
  note T = wall_collision_emission [where t = 0 and pool = "[[]]" and cfg = wallsBoth
      and kNone = "- 1" and sched = "\<lambda>i. 0" and bodies = "[?sy]" and wallBot = 0 and wallTop = 1
      and sy = ?sy, OF h]
  have cfg: "wallLowZ wallsBoth" "wallHighZ wallsBoth" "vz (simBoxLow wallsBoth) = 0"
    "vz (simBoxHigh wallsBoth) = 1"
    by (simp_all add: wallsBoth_def vz_def)
  have tb: "threadBlocks (wallHighBody (- 1) 1) (\<lambda>i. 0) [?sy] [0..<length [?sy]] 0 = [?b]"
    using high by (simp add: threadBlocks_def)
  have tl: "threadBlocks (wallLowBody (- 1) 0) (\<lambda>i. 0) [?sy] [0..<length [?sy]] 0 = []"
    using low by (simp add: threadBlocks_def)
  have A: "collectWallCollision wallsBoth (- 1) (\<lambda>i. 0) [?sy] [[]] ! 0 = [?b]"
    using T cfg tb tl by simp
  have D: "oneSide ?b \<and> delta0 ?b = min (distmHigh 1 ?sy) (distpHigh 1 ?sy)"
    using T high by blast
  show ?thesis
    using h A high D by simp
qed

text \<open>
  C8. With the bodies, the configuration and the assignment of iterations to threads unchanged, a call of \<^verbatim>\<open>collectWallCollision\<close> appends to the queue of every thread a sequence of blocks that does not depend on what the queues hold, so a second call appends the same sequence again (same gaps, multipliers, gids, indices, normals and contact points), and the number of queues stays the same.
\<close>

theorem wall_collision_repeatable:
  assumes "t < length pool"
  shows "collectWallCollision cfg kNone sched bodies pool ! t
           = pool ! t @ wallNewBlocks cfg kNone sched bodies t
         \<and> collectWallCollision cfg kNone sched bodies
              (collectWallCollision cfg kNone sched bodies pool) ! t
           = collectWallCollision cfg kNone sched bodies pool ! t
             @ wallNewBlocks cfg kNone sched bodies t
         \<and> length (collectWallCollision cfg kNone sched bodies
              (collectWallCollision cfg kNone sched bodies pool)) = length pool"
proof -
  let ?p1 = "collectWallCollision cfg kNone sched bodies pool"
  have l1: "t < length ?p1"
    using assms by (simp add: collectWallCollision_length)
  show ?thesis
    using collectWallCollision_nth [OF assms] collectWallCollision_nth [OF l1]
    by (simp add: collectWallCollision_length)
qed

lemma rodTop_low: "wallLowBody (- 1) 0 rodTop = None"
proof -
  have dm: "distmLow 0 rodTop = 0"
    by (simp add: distmLow_def rodTop_def ends_rodAt vz_def) (simp add: rodAt_def)
  have dp: "distpLow 0 rodTop = 1"
    by (simp add: distpLow_def rodTop_def ends_rodAt vz_def) (simp add: rodAt_def)
  show ?thesis
    by (simp add: wallLowBody_def dm dp wallSelect_def)
qed

lemma rodTop_high: "wallHighBody (- 1) 1 rodTop = Some rodTopBlock"
proof -
  have dm: "distmHigh 1 rodTop = 0"
    by (simp add: distmHigh_def rodTop_def ends_rodAt vz_def) (simp add: rodAt_def)
  have dp: "distpHigh 1 rodTop = - 1"
    by (simp add: distpHigh_def rodTop_def ends_rodAt vz_def) (simp add: rodAt_def)
  have "endPp rodTop = (0, 0, 3 / 2)"
    by (simp add: rodTop_def ends_rodAt)
  then show ?thesis
    by (simp add: wallHighBody_def dm dp wallSelect_def rodTopBlock_def)
qed

lemma rodTop_new: "wallNewBlocks wallsBoth (- 1) (\<lambda>i. 0) [rodTop] 0 = [rodTopBlock]"
  by (simp add: wallNewBlocks_def wallsBoth_def vz_def threadBlocks_def rodTop_low rodTop_high)

theorem wall_collision_repeatable_witness:
  "(0 :: nat) < length [[] :: ConstraintBlock list]
   \<and> collectWallCollision wallsBoth (- 1) (\<lambda>i. 0) [rodTop] [[]] ! 0 = [rodTopBlock]
   \<and> collectWallCollision wallsBoth (- 1) (\<lambda>i. 0) [rodTop]
        (collectWallCollision wallsBoth (- 1) (\<lambda>i. 0) [rodTop] [[]]) ! 0
       = [rodTopBlock, rodTopBlock]"
proof -
  have h: "(0 :: nat) < length [[] :: ConstraintBlock list]"
    by simp
  show ?thesis
    using h wall_collision_repeatable [where t = 0 and pool = "[[]]" and cfg = wallsBoth
        and kNone = "- 1" and sched = "\<lambda>i. 0" and bodies = "[rodTop]", OF h]
    by (simp add: rodTop_new)
qed

section \<open>Global indices and the fake second body of a wall block\<close>


lemma updateSylinderMap_length: "length (updateSylinderMap base bodies) = length bodies"
  by (simp add: updateSylinderMap_def)














section \<open>Linkage blocks\<close>

















section \<open>The order of calls in a step\<close>

lemma resolveConstraints_trace:
  "trace (resolveConstraints kNone sched calcColFtr wb s)
     = trace s @
       [CollectPairCollision, CollectWallCollision,
        Setup (collectWallCollision (runConfig s) kNone sched (sylinderContainer s)
                 (fst (calcColFtr (sylinderContainer s) (uniConstraint s, biConstraint s))))
              (map (\<lambda>queue. map (defaultKappa (runConfig s)) queue)
                 (snd (calcColFtr (sylinderContainer s) (uniConstraint s, biConstraint s))))
              (dt (runConfig s)),
        SetControlParams (conResTol (runConfig s)) (conMaxIte (runConfig s)),
        SolveConstraints, WritebackGamma, SaveVelocityConstraints]"
  by (simp add: resolveConstraints_def Let_def saveVelocityConstraints_def writebackGamma_def
      solveConstraints_def setControlParams_def solver_setup_def sys_collectWallCollision_def
      sys_collectPairCollision_def collectPairCollision_def split: prod.splits)

lemma stepEvents_eq:
  "stepEvents kNone sched calcColFtr wb s
     = [CollectPairCollision, CollectWallCollision,
        Setup (collectWallCollision (runConfig s) kNone sched (sylinderContainer s)
                 (fst (calcColFtr (sylinderContainer s) (uniConstraint s, biConstraint s))))
              (map (\<lambda>queue. map (defaultKappa (runConfig s)) queue)
                 (snd (calcColFtr (sylinderContainer s) (uniConstraint s, biConstraint s))))
              (dt (runConfig s)),
        SetControlParams (conResTol (runConfig s)) (conMaxIte (runConfig s)),
        SolveConstraints, WritebackGamma, SaveVelocityConstraints]"
  by (simp add: stepEvents_def resolveConstraints_trace)

lemma resolveConstraints_solver:
  "constraintSolver (resolveConstraints kNone sched calcColFtr wb s)
     = \<lparr>res = conResTol (runConfig s), maxIte = conMaxIte (runConfig s)\<rparr>"
  by (simp add: resolveConstraints_def Let_def saveVelocityConstraints_def writebackGamma_def
      solveConstraints_def setControlParams_def solver_setup_def sys_collectWallCollision_def
      sys_collectPairCollision_def collectPairCollision_def split: prod.splits)

text \<open>
  C2 (as the code has it). Before \<^verbatim>\<open>setup\<close> a step runs \<^verbatim>\<open>collectPairCollision\<close> and then \<^verbatim>\<open>collectWallCollision\<close>, and \<^verbatim>\<open>collectLinkBilateral\<close> is not called anywhere in the step. \<^verbatim>\<open>setup\<close> is given the unilateral pool the near-force functor left, extended by the wall contacts, and the bilateral pool the near-force functor left, with the default spring constant filled in.
\<close>

theorem resolve_contact_generation:
  "beforeSetup (stepEvents kNone sched calcColFtr wb s) = [CollectPairCollision, CollectWallCollision]
   \<and> CollectLinkBilateral \<notin> set (stepEvents kNone sched calcColFtr wb s)
   \<and> List.map_filter setupUniPool (stepEvents kNone sched calcColFtr wb s)
       = [collectWallCollision (runConfig s) kNone sched (sylinderContainer s)
            (fst (calcColFtr (sylinderContainer s) (uniConstraint s, biConstraint s)))]
   \<and> List.map_filter setupBiPool (stepEvents kNone sched calcColFtr wb s)
       = [map (\<lambda>queue. map (defaultKappa (runConfig s)) queue)
            (snd (calcColFtr (sylinderContainer s) (uniConstraint s, biConstraint s)))]"
  by (simp add: stepEvents_eq beforeSetup_def)

text \<open>
  C2 (as stated) fails: in a system whose first rod declares the second as its next link, a step never calls \<^verbatim>\<open>collectLinkBilateral\<close>; when the near-force functor emits nothing, the bilateral pool given to \<^verbatim>\<open>setup\<close> is empty.
\<close>

theorem resolve_contact_generation_counterexample:
  "link_next (link (sylinderContainer firstStep ! 0)) = 2
   \<and> gid (sylinderContainer firstStep ! 1) = 2
   \<and> CollectLinkBilateral \<notin> set (trace (resolveConstraints (- 1) (\<lambda>i. 0) emitNothing (\<lambda>pools. pools) firstStep))
   \<and> List.map_filter setupBiPool (trace (resolveConstraints (- 1) (\<lambda>i. 0) emitNothing (\<lambda>pools. pools) firstStep))
       = [[[]]]"
  by (simp add: resolveConstraints_trace firstStep_def chain2_def rodLinked_def rodAt_def
      emitNothing_def)

text \<open>
  C3 (as the code has it). The solver methods a step calls are, in this order, \<^verbatim>\<open>setup\<close>, \<^verbatim>\<open>setControlParams\<close>, \<^verbatim>\<open>solveConstraints\<close>, \<^verbatim>\<open>writebackGamma\<close>: \<^verbatim>\<open>setup\<close> comes before \<^verbatim>\<open>setControlParams\<close>, not after it, and the control parameters the solver holds after the step are those of the configuration.
\<close>

theorem solver_call_order:
  "solverCalls (stepEvents kNone sched calcColFtr wb s)
     = [KSetup, KSetControlParams, KSolveConstraints, KWritebackGamma]
   \<and> calledBefore KSetup KSetControlParams (solverCalls (stepEvents kNone sched calcColFtr wb s))
   \<and> calledBefore KSetControlParams KSolveConstraints (solverCalls (stepEvents kNone sched calcColFtr wb s))
   \<and> calledBefore KSolveConstraints KWritebackGamma (solverCalls (stepEvents kNone sched calcColFtr wb s))
   \<and> \<not> calledBefore KSetControlParams KSetup (solverCalls (stepEvents kNone sched calcColFtr wb s))
   \<and> constraintSolver (resolveConstraints kNone sched calcColFtr wb s)
       = \<lparr>res = conResTol (runConfig s), maxIte = conMaxIte (runConfig s)\<rparr>"
  by (simp add: stepEvents_eq solverCalls_def calledBefore_def
      resolveConstraints_solver)

text \<open>
  C3 (as stated) fails at the first step of a system: the solver, on which no method was called yet, executes \<^verbatim>\<open>setup\<close> first, and \<^verbatim>\<open>setControlParams\<close> is not called before it.
\<close>

theorem solver_call_order_counterexample:
  "trace firstStep = []
   \<and> solverCalls (trace (resolveConstraints (- 1) (\<lambda>i. 0) emitNothing (\<lambda>pools. pools) firstStep))
       = [KSetup, KSetControlParams, KSolveConstraints, KWritebackGamma]
   \<and> \<not> calledBefore KSetControlParams KSetup
         (solverCalls (trace (resolveConstraints (- 1) (\<lambda>i. 0) emitNothing (\<lambda>pools. pools) firstStep)))"
  by (simp add: resolveConstraints_trace firstStep_def solverCalls_def calledBefore_def
     )

text \<open>
  C1 (the code at the failing input). A bilateral block with gap 1/100 that the near-force functor emits with its spring constant unset leaves \<^verbatim>\<open>collectPairCollision\<close> with spring constant 100 and multiplier \<open>+1\<close>, which is \<open>kappa\<close> times the gap and not its negation \<open>-1\<close>.
\<close>

theorem pair_collision_default_kappa_sign:
  "snd (collectPairCollision wallsBoth emitOneLink [] ([[]], [[]]))
     = [[unsetLink\<lparr>kappa := 100, gamma := 1\<rparr>]]
   \<and> kappa unsetLink < 0
   \<and> linkKappa wallsBoth = 100
   \<and> delta0 (unsetLink\<lparr>kappa := 100, gamma := 1\<rparr>) = 1 / 100
   \<and> gamma (unsetLink\<lparr>kappa := 100, gamma := 1\<rparr>)
       \<noteq> - kappa (unsetLink\<lparr>kappa := 100, gamma := 1\<rparr>) * delta0 (unsetLink\<lparr>kappa := 100, gamma := 1\<rparr>)"
  by (simp add: collectPairCollision_def emitOneLink_def emplace_back_def defaultKappa_def Let_def
      unsetLink_def wallsBoth_def)

section \<open>New gids\<close>

lemma partial_sum_from_length: "length (partial_sum_from acc xs) = length xs"
  by (induction xs arbitrary: acc) auto



















end
